theory Spec2Isabelle
  imports Complex_Main "HOL-Library.Product_Lexorder"
begin

section \<open>Sensor samples and swing peaks (swing_detector.py)\<close>

text \<open>
  \<^verbatim>\<open>SensorSample\<close> holds one reading: a timestamp and the thirteen components of the
  rotation rate, gravity, user acceleration and orientation quaternion. Python floats
  are modelled as real numbers: comparisons and subtractions are exact, and there is
  no NaN.
\<close>

record SensorSample =
  timestamp :: real
  rotation_x :: real
  rotation_y :: real
  rotation_z :: real
  gravity_x :: real
  gravity_y :: real
  gravity_z :: real
  accel_x :: real
  accel_y :: real
  accel_z :: real
  quat_w :: real
  quat_x :: real
  quat_y :: real
  quat_z :: real

definition rotation_magnitude :: "SensorSample \<Rightarrow> real" where
  "rotation_magnitude s = sqrt ((rotation_x s)\<^sup>2 + (rotation_y s)\<^sup>2 + (rotation_z s)\<^sup>2)"

definition acceleration_magnitude :: "SensorSample \<Rightarrow> real" where
  "acceleration_magnitude s = sqrt ((accel_x s)\<^sup>2 + (accel_y s)\<^sup>2 + (accel_z s)\<^sup>2)"

text \<open>
  \<^verbatim>\<open>SwingPeak\<close>: the fields of the Python class, with the prefix \<open>peak_\<close> where the
  name would clash with a field of \<open>SensorSample\<close>.
\<close>

record SwingPeak =
  peak_timestamp :: real
  peak_index :: nat
  peak_rotation_magnitude :: real
  peak_acceleration_magnitude :: real
  sensor_data :: SensorSample

section \<open>The detector state\<close>

text \<open>
  The instance fields of \<^verbatim>\<open>SwingDetector\<close>. \<open>buffer\<close> is the contents of the
  \<^verbatim>\<open>deque(maxlen=buffer_size)\<close>, oldest sample first. \<open>session_start_time\<close> is the
  value of \<^verbatim>\<open>time.time()\<close> at construction, which the model takes as an argument.
\<close>

record SwingDetector =
  buffer_size :: nat
  threshold :: real
  min_distance :: nat
  height_multiplier :: real
  buffer :: "SensorSample list"
  last_peak_timestamp :: real
  min_peak_interval :: real
  total_samples_processed :: nat
  total_peaks_detected :: nat
  session_start_time :: real

definition SwingDetector_init :: "real \<Rightarrow> nat \<Rightarrow> real \<Rightarrow> nat \<Rightarrow> real \<Rightarrow> SwingDetector" where
  "SwingDetector_init now bsize thr mdist hmult =
     \<lparr> buffer_size = bsize, threshold = thr, min_distance = mdist,
       height_multiplier = hmult, buffer = [], last_peak_timestamp = 0,
       min_peak_interval = 1 / 2, total_samples_processed = 0,
       total_peaks_detected = 0, session_start_time = now \<rparr>"

text \<open>The constructor's default arguments: \<^verbatim>\<open>SwingDetector()\<close>.\<close>

definition SwingDetector_default :: "real \<Rightarrow> SwingDetector" where
  "SwingDetector_default now = SwingDetector_init now 300 2 50 1"

section \<open>The sliding window: a deque with maxlen\<close>

text \<open>
  \<^verbatim>\<open>deque.append\<close> on a bounded deque adds the item on the right and, when the deque
  is then longer than \<open>maxlen\<close>, drops one item on the left. \<^verbatim>\<open>deque.extend\<close> appends
  the items one by one.
\<close>

definition deque_append :: "nat \<Rightarrow> 'a list \<Rightarrow> 'a \<Rightarrow> 'a list" where
  "deque_append maxlen dq x =
     (let dq' = dq @ [x] in if maxlen < length dq' then tl dq' else dq')"

definition deque_extend :: "nat \<Rightarrow> 'a list \<Rightarrow> 'a list \<Rightarrow> 'a list" where
  "deque_extend maxlen dq xs = foldl (deque_append maxlen) dq xs"

section \<open>The debounce loop and process_batch\<close>

text \<open>
  The \<^verbatim>\<open>for peak_idx in peaks\<close> loop of \<^verbatim>\<open>process_batch\<close>: \<open>mags\<close> and \<open>ts\<close> are the
  arrays \<^verbatim>\<open>magnitudes\<close> and \<^verbatim>\<open>timestamps\<close>, \<open>acc\<close> is \<^verbatim>\<open>detected_swings\<close>. A peak
  closer than \<open>min_peak_interval\<close> to \<open>last_peak_timestamp\<close> is skipped; an accepted
  one is appended, becomes the new \<open>last_peak_timestamp\<close> and is counted.
\<close>

fun detect_loop ::
  "real list \<Rightarrow> real list \<Rightarrow> SwingDetector \<Rightarrow> SwingPeak list \<Rightarrow> nat list
     \<Rightarrow> SwingPeak list \<times> SwingDetector" where
  "detect_loop mags ts d acc [] = (acc, d)"
| "detect_loop mags ts d acc (peak_idx # rest) =
     (let peak_ts = ts ! peak_idx in
      if peak_ts - last_peak_timestamp d < min_peak_interval d
      then detect_loop mags ts d acc rest
      else
        let sample_at_peak = buffer d ! peak_idx;
            swing_peak = \<lparr> peak_timestamp = peak_ts, peak_index = peak_idx,
              peak_rotation_magnitude = mags ! peak_idx,
              peak_acceleration_magnitude = acceleration_magnitude sample_at_peak,
              sensor_data = sample_at_peak \<rparr>
        in detect_loop mags ts
             (d\<lparr> last_peak_timestamp := peak_ts,
                 total_peaks_detected := total_peaks_detected d + 1 \<rparr>)
             (acc @ [swing_peak]) rest)"

text \<open>
  \<^verbatim>\<open>process_batch\<close>. The peak finder is the library call
  \<^verbatim>\<open>find_peaks(magnitudes, height=threshold, distance=min_distance)\<close>, whose code is not
  part of the repository: the model takes it as the argument \<open>fp\<close>, a function from
  the magnitudes, the height and the distance to the list of peak positions. The
  result is the list of detected swings and the updated detector.
\<close>

definition process_batch ::
  "(real list \<Rightarrow> real \<Rightarrow> nat \<Rightarrow> nat list) \<Rightarrow> SwingDetector \<Rightarrow> SensorSample list
     \<Rightarrow> SwingPeak list \<times> SwingDetector" where
  "process_batch fp d samples =
     (if samples = [] then ([], d)
      else
        let d1 = d\<lparr> buffer := deque_extend (buffer_size d) (buffer d) samples,
                    total_samples_processed := total_samples_processed d + length samples \<rparr>
        in if length (buffer d1) < min_distance d1 * 2 then ([], d1)
           else
             let magnitudes = map rotation_magnitude (buffer d1);
                 timestamps = map timestamp (buffer d1);
                 peaks = fp magnitudes (threshold d1) (min_distance d1)
             in detect_loop magnitudes timestamps d1 [] peaks)"

definition process_sample ::
  "(real list \<Rightarrow> real \<Rightarrow> nat \<Rightarrow> nat list) \<Rightarrow> SwingDetector \<Rightarrow> SensorSample
     \<Rightarrow> SwingPeak list \<times> SwingDetector" where
  "process_sample fp d s = process_batch fp d [s]"

text \<open>A sequence of calls on one detector: the events in emission order and the final state.\<close>

fun process_batches ::
  "(real list \<Rightarrow> real \<Rightarrow> nat \<Rightarrow> nat list) \<Rightarrow> SwingDetector \<Rightarrow> SensorSample list list
     \<Rightarrow> SwingPeak list \<times> SwingDetector" where
  "process_batches fp d [] = ([], d)"
| "process_batches fp d (b # bs) =
     (let (ev1, d1) = process_batch fp d b;
          (ev2, d2) = process_batches fp d1 bs
      in (ev1 @ ev2, d2))"


section \<open>The peak finder of the specification\<close>

text \<open>
  Modelled from the spec: the library function \<^verbatim>\<open>find_peaks\<close> that \<^verbatim>\<open>process_batch\<close>
  calls is not part of the repository. The definitions of this section follow the
  procedure of the specification's section 4.2 word by word. A position \<open>i\<close>, neither
  the first nor the last, is a candidate when its magnitude is at least that of both
  neighbours and at least the threshold.
\<close>

definition is_candidate :: "real list \<Rightarrow> real \<Rightarrow> nat \<Rightarrow> bool" where
  "is_candidate m h i =
     (0 < i \<and> Suc i < length m \<and> m ! (i - 1) \<le> m ! i \<and> m ! Suc i \<le> m ! i \<and> h \<le> m ! i)"

text \<open>Modelled from the spec: the candidates of a magnitude sequence, by position.\<close>

definition candidates :: "real list \<Rightarrow> real \<Rightarrow> nat list" where
  "candidates m h = filter (is_candidate m h) [0..<length m]"

text \<open>
  Modelled from the spec: two positions lie within \<open>k\<close> samples of each other when
  fewer than \<open>k\<close> samples separate them (two bumps separated by at least
  \<open>min_distance\<close> samples are both kept).
\<close>

definition within_distance :: "nat \<Rightarrow> nat \<Rightarrow> nat \<Rightarrow> bool" where
  "within_distance k a c = (if a \<le> c then c - a < k else a - c < k)"

text \<open>
  Modelled from the spec: the scan order, by magnitude in descending order and, on
  equal magnitudes, the earlier position first. \<open>scan_key\<close> is the sorting key under
  the lexicographic order of pairs, \<open>scanned_before\<close> the strict order it induces.
\<close>

definition scan_key :: "real list \<Rightarrow> nat \<Rightarrow> real \<times> nat" where
  "scan_key m i = (- (m ! i), i)"

definition scanned_before :: "real list \<Rightarrow> nat \<Rightarrow> nat \<Rightarrow> bool" where
  "scanned_before m a c = (m ! c < m ! a \<or> (m ! a = m ! c \<and> a < c))"

text \<open>
  Modelled from the spec: the scan. \<open>acc\<close> holds the candidates accepted so far; a
  candidate is accepted only if none of them lies within \<open>k\<close> samples of it.
\<close>

fun select_by_distance :: "nat \<Rightarrow> nat list \<Rightarrow> nat list \<Rightarrow> nat list" where
  "select_by_distance k acc [] = acc"
| "select_by_distance k acc (c # cs) =
     (if list_ex (\<lambda>a. within_distance k a c) acc
      then select_by_distance k acc cs
      else select_by_distance k (acc @ [c]) cs)"

text \<open>
  Modelled from the spec: \<^verbatim>\<open>find_peaks(magnitudes, height, distance)\<close> as the
  specification describes it: the candidates, scanned in scan order, the accepted ones
  returned ordered by position.
\<close>

definition find_peaks :: "real list \<Rightarrow> real \<Rightarrow> nat \<Rightarrow> nat list" where
  "find_peaks m h k =
     sort (select_by_distance k [] (sort_key (scan_key m) (candidates m h)))"

section \<open>Statistics and speed estimate\<close>

text \<open>
  \<^verbatim>\<open>get_statistics\<close>: the dictionary it returns, as a record. \<open>now\<close> is the value of
  \<^verbatim>\<open>time.time()\<close> at the call.
\<close>

record DetectorStatistics =
  stat_total_samples_processed :: nat
  stat_total_peaks_detected :: nat
  stat_buffer_size :: nat
  stat_buffer_capacity :: nat
  stat_elapsed_time_seconds :: real
  stat_sample_rate_hz :: real
  stat_threshold :: real
  stat_min_distance :: nat

definition get_statistics :: "real \<Rightarrow> SwingDetector \<Rightarrow> DetectorStatistics" where
  "get_statistics now d =
     (let elapsed_time = now - session_start_time d;
          sample_rate = (if 0 < elapsed_time
                         then real (total_samples_processed d) / elapsed_time else 0)
      in \<lparr> stat_total_samples_processed = total_samples_processed d,
           stat_total_peaks_detected = total_peaks_detected d,
           stat_buffer_size = length (buffer d),
           stat_buffer_capacity = buffer_size d,
           stat_elapsed_time_seconds = elapsed_time,
           stat_sample_rate_hz = sample_rate,
           stat_threshold = threshold d,
           stat_min_distance = min_distance d \<rparr>)"

definition estimate_swing_speed :: "SwingPeak \<Rightarrow> real" where
  "estimate_swing_speed peak =
     (let arm_length_m = 6 / 10; racket_length_m = 7 / 10;
          total_length_m = arm_length_m + racket_length_m;
          linear_velocity_ms = peak_rotation_magnitude peak * total_length_m
      in linear_velocity_ms * (2237 / 1000))"

section \<open>The raw sample store (main.py)\<close>

text \<open>
  A row of the table \<^verbatim>\<open>raw_sensor_buffer\<close>. The table's schema is not among the source
  files; the model keeps the columns \<^verbatim>\<open>insert_raw_sensor_buffer\<close> writes and no
  constraint. \<open>compressed_data\<close> stands for the gzipped CSV of the batch: the model
  stores the samples themselves.
\<close>

record raw_buffer_row =
  buffer_id :: string
  row_session_id :: string
  start_timestamp :: real
  end_timestamp :: real
  sample_count :: nat
  compressed_data :: "SensorSample list"

text \<open>
  \<^verbatim>\<open>min(s['timestamp'] for s in samples)\<close> and the \<^verbatim>\<open>max\<close>, read on a non-empty
  batch only (the caller returns early on an empty one).
\<close>

definition min_timestamp :: "SensorSample list \<Rightarrow> real" where
  "min_timestamp samples = fold min (map timestamp (tl samples)) (timestamp (hd samples))"

definition max_timestamp :: "SensorSample list \<Rightarrow> real" where
  "max_timestamp samples = fold max (map timestamp (tl samples)) (timestamp (hd samples))"

text \<open>The \<^verbatim>\<open>WHERE\<close> clause of the duplicate check.\<close>

definition same_range :: "string \<Rightarrow> real \<Rightarrow> real \<Rightarrow> raw_buffer_row \<Rightarrow> bool" where
  "same_range sid start_ts end_ts r =
     (row_session_id r = sid \<and> start_timestamp r = start_ts \<and> end_timestamp r = end_ts)"

text \<open>
  \<^verbatim>\<open>insert_raw_sensor_buffer\<close>, on the table as a list of rows. \<open>db_ok\<close> says whether
  the database calls of this invocation succeed: when one raises, the \<^verbatim>\<open>except\<close>
  clause logs it and nothing is committed. \<open>new_id\<close> is the identifier drawn from
  \<^verbatim>\<open>uuid4\<close>.
\<close>

definition insert_raw_sensor_buffer ::
  "bool \<Rightarrow> string \<Rightarrow> string \<Rightarrow> SensorSample list \<Rightarrow> raw_buffer_row list \<Rightarrow> raw_buffer_row list" where
  "insert_raw_sensor_buffer db_ok new_id sid samples tbl =
     (if samples = [] then tbl
      else if \<not> db_ok then tbl
      else
        let start_ts = min_timestamp samples;
            end_ts = max_timestamp samples;
            existing_buffer = filter (same_range sid start_ts end_ts) tbl
        in if existing_buffer \<noteq> [] then tbl
           else tbl @ [\<lparr> buffer_id = new_id, row_session_id = sid,
                           start_timestamp = start_ts, end_timestamp = end_ts,
                           sample_count = length samples, compressed_data = samples \<rparr>])"

section \<open>The session registry and the message handler (main.py)\<close>

text \<open>
  The decoded messages of \<^verbatim>\<open>websocket_endpoint\<close>: \<^verbatim>\<open>session_start\<close> with its
  \<^verbatim>\<open>session_id\<close> (which may be missing) and device, \<^verbatim>\<open>sensor_batch\<close> with session id,
  device and samples, \<^verbatim>\<open>session_end\<close> with its \<^verbatim>\<open>session_id\<close>, and any other type.
  The JSON and Pydantic decoding in front of them is not modelled.
\<close>

datatype message =
    SessionStart "string option" string
  | SensorBatch string string "SensorSample list"
  | SessionEnd "string option"
  | UnknownType string

text \<open>
  What the server sends back: an error message, \<^verbatim>\<open>session_started\<close>,
  \<^verbatim>\<open>swing_detected\<close> (session id, the swing and its estimated speed; the shot id
  string is left out) and \<^verbatim>\<open>session_ended\<close> with the statistics.
\<close>

datatype response =
    Error string
  | SessionStarted string
  | SwingDetected string SwingPeak real
  | SessionEnded string DetectorStatistics

text \<open>
  The state the handler works on: the global dictionary \<^verbatim>\<open>active_sessions\<close>, the table
  \<^verbatim>\<open>raw_sensor_buffer\<close> and the connection's \<^verbatim>\<open>current_session_id\<close>. The writes to
  the tables \<^verbatim>\<open>sessions\<close> and \<^verbatim>\<open>shots\<close> (\<^verbatim>\<open>insert_session\<close>, \<^verbatim>\<open>insert_shot\<close>,
  \<^verbatim>\<open>update_session_end\<close>) touch none of the three and are left out.
\<close>

record server =
  active_sessions :: "string \<rightharpoonup> SwingDetector"
  raw_sensor_buffer :: "raw_buffer_row list"
  current_session_id :: "string option"

text \<open>What one message reads from outside: the clock, the database and the random id.\<close>

record env =
  env_now :: real
  env_db_ok :: bool
  env_buffer_id :: string

text \<open>The module constant: real-time detection is off as shipped.\<close>

definition ENABLE_REALTIME_SWING_DETECTION :: bool where
  "ENABLE_REALTIME_SWING_DETECTION = False"

text \<open>
  One round of the \<^verbatim>\<open>while True\<close> loop of \<^verbatim>\<open>websocket_endpoint\<close>, on a decoded
  message: the responses sent, in order, and the new state. \<open>enable\<close> is the value of
  \<^verbatim>\<open>ENABLE_REALTIME_SWING_DETECTION\<close> and \<open>fp\<close> the library's peak finder. A detector is
  a mutable object shared with the dictionary, so the detector \<^verbatim>\<open>process_batch\<close> has
  updated is stored back under its session id.
\<close>

fun handle_message ::
  "(real list \<Rightarrow> real \<Rightarrow> nat \<Rightarrow> nat list) \<Rightarrow> bool \<Rightarrow> env \<Rightarrow> server \<Rightarrow> message
     \<Rightarrow> response list \<times> server" where
  "handle_message fp enable e st (SessionStart sid_opt device) =
     (case sid_opt of
        None \<Rightarrow> ([Error ''session_id is required''], st)
      | Some sid \<Rightarrow>
          if sid = [] then ([Error ''session_id is required''], st)
          else
            ([SessionStarted sid],
             st\<lparr> active_sessions :=
                    (active_sessions st)(sid \<mapsto> SwingDetector_init (env_now e) 300 2 50 1),
                 current_session_id := Some sid \<rparr>))"
| "handle_message fp enable e st (SensorBatch sid device samples) =
     (let st1 = (case active_sessions st sid of
                   None \<Rightarrow> st\<lparr> active_sessions :=
                                  (active_sessions st)(sid \<mapsto> SwingDetector_default (env_now e)),
                               current_session_id := Some sid \<rparr>
                 | Some _ \<Rightarrow> st);
          detector = (case active_sessions st sid of
                        None \<Rightarrow> SwingDetector_default (env_now e)
                      | Some d \<Rightarrow> d);
          st2 = st1\<lparr> raw_sensor_buffer :=
                   insert_raw_sensor_buffer (env_db_ok e) (env_buffer_id e) sid samples
                     (raw_sensor_buffer st1) \<rparr>
      in if enable
         then
           let (detected_peaks, detector') = process_batch fp detector samples
           in (map (\<lambda>peak. SwingDetected sid peak (estimate_swing_speed peak)) detected_peaks,
               st2\<lparr> active_sessions := (active_sessions st2)(sid \<mapsto> detector') \<rparr>)
         else ([], st2))"
| "handle_message fp enable e st (SessionEnd sid_opt) =
     (case sid_opt of
        None \<Rightarrow> ([], st)
      | Some sid \<Rightarrow>
          (case active_sessions st sid of
             None \<Rightarrow> ([], st)
           | Some detector \<Rightarrow>
               ([SessionEnded sid (get_statistics (env_now e) detector)],
                st\<lparr> active_sessions := (active_sessions st)(sid := None) \<rparr>)))"
| "handle_message fp enable e st (UnknownType t) =
     ([Error (''Unknown message type: '' @ t)], st)"

text \<open>
  The \<^verbatim>\<open>WebSocketDisconnect\<close> handler: the connection's current session, when it has
  one with a non-empty id that is still active, leaves the dictionary.
\<close>

definition handle_disconnect :: "server \<Rightarrow> server" where
  "handle_disconnect st =
     (case current_session_id st of
        None \<Rightarrow> st
      | Some sid \<Rightarrow>
          if sid \<noteq> [] \<and> active_sessions st sid \<noteq> None
          then st\<lparr> active_sessions := (active_sessions st)(sid := None) \<rparr>
          else st)"

text \<open>The server before any message: no session, an empty table.\<close>

definition server_init :: server where
  "server_init = \<lparr> active_sessions = Map.empty, raw_sensor_buffer = [], current_session_id = None \<rparr>"

section \<open>The debounce gate as the specification words it\<close>



section \<open>Sample inputs\<close>

text \<open>
  A sample with timestamp \<open>t\<close> whose rotation rate is \<open>(x, 0, 0)\<close>, at rest otherwise
  (gravity \<open>(0, -1, 0)\<close> and the unit quaternion, as in the module's own example):
  its rotation magnitude is \<open>\<bar>x\<bar>\<close>.
\<close>

definition sample_at :: "real \<Rightarrow> real \<Rightarrow> SensorSample" where
  "sample_at t x =
     \<lparr> timestamp = t, rotation_x = x, rotation_y = 0, rotation_z = 0,
       gravity_x = 0, gravity_y = - 1, gravity_z = 0,
       accel_x = 0, accel_y = 0, accel_z = 0,
       quat_w = 1, quat_x = 0, quat_y = 0, quat_z = 0 \<rparr>"

text \<open>
  A stream sampled at 100 Hz from time \<open>t0\<close>: sample \<open>i\<close> has timestamp
  \<open>t0 + i / 100\<close> and rotation rate \<open>(f i, 0, 0)\<close>.
\<close>

definition stream_100hz :: "real \<Rightarrow> nat \<Rightarrow> (nat \<Rightarrow> real) \<Rightarrow> SensorSample list" where
  "stream_100hz t0 n f = map (\<lambda>i. sample_at (t0 + real i / 100) (f i)) [0..<n]"

text \<open>A signal at rest but for one sample of 3 rad/s at position \<open>c\<close>.\<close>

definition bump_at :: "nat \<Rightarrow> nat \<Rightarrow> real" where
  "bump_at c i = (if i = c then 3 else 0)"

text \<open>
  Four seconds of that signal from time 1: 400 samples, the swing at position 50
  (timestamp 1.5), more than the 300 samples the default window holds.
\<close>

definition swing_stream :: "SensorSample list" where
  "swing_stream = stream_100hz 1 400 (bump_at 50)"

text \<open>
  The outside world at time \<open>t\<close> with a working database, and a batch of three samples
  with a swing in the middle.
\<close>

definition env_at :: "real \<Rightarrow> env" where
  "env_at t = \<lparr> env_now = t, env_db_ok = True, env_buffer_id = ''buffer_0'' \<rparr>"

definition three_samples :: "SensorSample list" where
  "three_samples = [sample_at 1 0, sample_at 2 3, sample_at 3 0]"

section \<open>The window\<close>

lemma length_deque_append:
  "length dq \<le> n \<Longrightarrow> length (deque_append n dq x) \<le> n"
  by (auto simp: deque_append_def Let_def)

lemma deque_append_drop:
  assumes "length dq \<le> n"
  shows "deque_append n dq x = drop (length (dq @ [x]) - n) (dq @ [x])"
proof (cases "n < length (dq @ [x])")
  case True
  with assms have "length (dq @ [x]) - n = Suc 0" by simp
  moreover have "drop (Suc 0) (dq @ [x]) = tl (dq @ [x])"
    by (simp only: drop_Suc drop_0)
  ultimately show ?thesis
    using True by (simp only: deque_append_def Let_def if_True)
next
  case False
  then show ?thesis by (simp add: deque_append_def Let_def)
qed

lemma deque_extend_snoc:
  "deque_extend n dq (xs @ [x]) = deque_append n (deque_extend n dq xs) x"
  by (simp add: deque_extend_def)

lemma deque_extend_append:
  "deque_extend n (deque_extend n dq xs) ys = deque_extend n dq (xs @ ys)"
  by (simp add: deque_extend_def)

lemma length_deque_extend:
  "length dq \<le> n \<Longrightarrow> length (deque_extend n dq xs) \<le> n"
  by (induction xs rule: rev_induct)
     (simp_all add: deque_extend_def length_deque_append)

lemma deque_extend_drop:
  assumes "length dq \<le> n"
  shows "deque_extend n dq xs = drop (length (dq @ xs) - n) (dq @ xs)"
proof (induction xs rule: rev_induct)
  case Nil
  from assms show ?case by (simp add: deque_extend_def)
next
  case (snoc x xs)
  define old where "old = dq @ xs"
  define k where "k = length old - n"
  have IH: "deque_extend n dq xs = drop k old"
    using snoc.IH by (simp add: old_def k_def)
  have len: "length (drop k old) \<le> n"
    by (simp add: k_def)
  have "deque_extend n dq (xs @ [x]) = deque_append n (drop k old) x"
    by (simp only: deque_extend_snoc IH)
  also have "\<dots> = drop (length (drop k old @ [x]) - n) (drop k old @ [x])"
    using len by (rule deque_append_drop)
  also have "\<dots> = drop (length (old @ [x]) - n) (old @ [x])"
  proof (cases "length old \<le> n")
    case True
    then show ?thesis by (simp add: k_def)
  next
    case False
    then have kk: "length (drop k old @ [x]) - n = Suc 0" "length (old @ [x]) - n = Suc k"
      by (simp_all add: k_def)
    have "k \<le> length old" by (simp add: k_def)
    then have e: "drop k old @ [x] = drop k (old @ [x])" by simp
    have "drop (length (drop k old @ [x]) - n) (drop k old @ [x])
            = drop (Suc 0) (drop k old @ [x])"
      by (simp only: kk)
    also have "\<dots> = drop (Suc 0) (drop k (old @ [x]))"
      by (simp only: e)
    also have "\<dots> = drop (Suc k) (old @ [x])"
      by (simp only: drop_drop add_Suc add_0)
    finally show ?thesis by (simp only: kk)
  qed
  finally show ?case by (simp add: old_def)
qed

section \<open>Properties of the specified peak finder\<close>

lemma select_snoc:
  "select_by_distance k acc (cs @ [c]) =
     (let S = select_by_distance k acc cs
      in if list_ex (\<lambda>a. within_distance k a c) S then S else S @ [c])"
  by (induction cs arbitrary: acc) (simp_all add: Let_def)

lemma select_greedy:
  assumes "sorted (map f cs)" "inj_on f (set cs)" "distinct cs"
  shows "set (select_by_distance k [] cs) \<subseteq> set cs \<and>
         (\<forall>x\<in>set cs. x \<in> set (select_by_distance k [] cs) \<longleftrightarrow>
            \<not> (\<exists>a\<in>set (select_by_distance k [] cs). f a < f x \<and> within_distance k a x))"
  using assms
proof (induction cs rule: rev_induct)
  case Nil
  then show ?case by simp
next
  case (snoc c cs)
  let ?S = "select_by_distance k [] cs"
  let ?S' = "select_by_distance k [] (cs @ [c])"
  from snoc.prems have srt: "sorted (map f cs)" and le: "\<forall>a\<in>set cs. f a \<le> f c"
    and inj: "inj_on f (set cs)" and dist: "distinct cs" and cnew: "c \<notin> set cs"
    by (auto simp: sorted_append inj_on_def)
  from snoc.IH[OF srt inj dist]
  have sub: "set ?S \<subseteq> set cs"
    and IH: "\<forall>x\<in>set cs. x \<in> set ?S \<longleftrightarrow> \<not> (\<exists>a\<in>set ?S. f a < f x \<and> within_distance k a x)"
    by auto
  have S': "?S' = (if list_ex (\<lambda>a. within_distance k a c) ?S then ?S else ?S @ [c])"
    by (simp add: select_snoc Let_def)
  have lt: "f a < f c" if "a \<in> set ?S" for a
  proof -
    from that sub have "a \<in> set cs" by auto
    with le have "f a \<le> f c" by simp
    moreover have "f a \<noteq> f c"
      using snoc.prems(2) \<open>a \<in> set cs\<close> cnew by (auto simp: inj_on_def)
    ultimately show ?thesis by simp
  qed
  have nlt: "\<not> f c < f x" if "x \<in> set cs" for x
    using le that by (auto simp: not_less)
  have sub': "set ?S' \<subseteq> set (cs @ [c])"
    using sub by (auto simp: S')
  have old: "x \<in> set ?S' \<longleftrightarrow> \<not> (\<exists>a\<in>set ?S'. f a < f x \<and> within_distance k a x)"
    if x: "x \<in> set cs" for x
  proof -
    from x cnew have "x \<noteq> c" by auto
    then have "x \<in> set ?S' \<longleftrightarrow> x \<in> set ?S" by (auto simp: S')
    also have "\<dots> \<longleftrightarrow> \<not> (\<exists>a\<in>set ?S. f a < f x \<and> within_distance k a x)"
      using IH x by blast
    also have "\<dots> \<longleftrightarrow> \<not> (\<exists>a\<in>set ?S'. f a < f x \<and> within_distance k a x)"
      using nlt[OF x] by (auto simp: S')
    finally show ?thesis .
  qed
  have new: "c \<in> set ?S' \<longleftrightarrow> \<not> (\<exists>a\<in>set ?S'. f a < f c \<and> within_distance k a c)"
  proof -
    have "c \<in> set ?S' \<longleftrightarrow> \<not> (\<exists>a\<in>set ?S. within_distance k a c)"
      using sub cnew by (auto simp: S' list_ex_iff)
    also have "\<dots> \<longleftrightarrow> \<not> (\<exists>a\<in>set ?S. f a < f c \<and> within_distance k a c)"
      using lt by blast
    also have "\<dots> \<longleftrightarrow> \<not> (\<exists>a\<in>set ?S'. f a < f c \<and> within_distance k a c)"
      by (auto simp: S')
    finally show ?thesis .
  qed
  from sub' old new show ?case by auto
qed

lemma scan_key_less: "scan_key m a < scan_key m c \<longleftrightarrow> scanned_before m a c"
  by (auto simp: scan_key_def scanned_before_def less_prod_def)

lemma distinct_select:
  "distinct acc \<Longrightarrow> distinct cs \<Longrightarrow> set acc \<inter> set cs = {} \<Longrightarrow> distinct (select_by_distance k acc cs)"
  by (induction cs arbitrary: acc) auto


lemma inj_scan_key: "inj_on (scan_key m) A"
  by (simp add: inj_on_def scan_key_def)

lemma set_candidates: "set (candidates m h) = {i. is_candidate m h i}"
  by (auto simp: candidates_def is_candidate_def)

lemma distinct_candidates: "distinct (candidates m h)"
  by (simp add: candidates_def)

lemma set_find_peaks_select:
  "set (find_peaks m h k) = set (select_by_distance k [] (sort_key (scan_key m) (candidates m h)))"
  by (simp add: find_peaks_def)

lemma find_peaks_candidate: "i \<in> set (find_peaks m h k) \<Longrightarrow> is_candidate m h i"
proof -
  let ?cs = "sort_key (scan_key m) (candidates m h)"
  assume "i \<in> set (find_peaks m h k)"
  then have "i \<in> set (select_by_distance k [] ?cs)"
    by (simp only: set_find_peaks_select)
  moreover have "set (select_by_distance k [] ?cs) \<subseteq> set ?cs"
    by (rule select_greedy[where f = "scan_key m", THEN conjunct1])
       (simp_all only: sorted_sort_key inj_scan_key distinct_candidates distinct_sort)
  ultimately have "i \<in> set (candidates m h)" by auto
  then show ?thesis by (simp add: set_candidates)
qed


text \<open>
  Claim C1. The peaks the specified procedure accepts: the result is ordered by
  position, and a position is accepted exactly when it is a candidate (neither first
  nor last, at least as high as both neighbours and as the threshold) and no accepted
  position scanned before it (higher magnitude, or equal magnitude and earlier position)
  lies within \<open>min_distance\<close> samples of it.
\<close>

theorem find_peaks_spec_procedure:
  "sorted_wrt (<) (find_peaks m h k) \<and>
   (\<forall>i. i \<in> set (find_peaks m h k) \<longleftrightarrow>
      (is_candidate m h i \<and>
       \<not> (\<exists>a\<in>set (find_peaks m h k). scanned_before m a i \<and> within_distance k a i)))"
proof -
  let ?cs = "sort_key (scan_key m) (candidates m h)"
  let ?S = "select_by_distance k [] ?cs"
  have dist_cs: "distinct ?cs" by (simp add: distinct_candidates)
  have greedy: "set ?S \<subseteq> set ?cs \<and>
         (\<forall>x\<in>set ?cs. x \<in> set ?S \<longleftrightarrow>
            \<not> (\<exists>a\<in>set ?S. scan_key m a < scan_key m x \<and> within_distance k a x))"
    using dist_cs by (intro select_greedy sorted_sort_key inj_scan_key)
  have "distinct ?S" using dist_cs by (simp add: distinct_select)
  then have ordered: "sorted_wrt (<) (find_peaks m h k)"
    by (simp add: find_peaks_def strict_sorted_iff)
  have mem: "i \<in> set (find_peaks m h k) \<longleftrightarrow>
      (is_candidate m h i \<and>
       \<not> (\<exists>a\<in>set (find_peaks m h k). scanned_before m a i \<and> within_distance k a i))" for i
  proof (cases "is_candidate m h i")
    case True
    then have "i \<in> set ?cs" by (simp add: set_candidates)
    with greedy have "i \<in> set ?S \<longleftrightarrow>
        \<not> (\<exists>a\<in>set ?S. scan_key m a < scan_key m i \<and> within_distance k a i)"
      by blast
    with True show ?thesis
      by (simp only: set_find_peaks_select scan_key_less simp_thms)
  next
    case False
    then show ?thesis using find_peaks_candidate by blast
  qed
  from ordered mem show ?thesis by blast
qed

section \<open>What process_batch changes\<close>

lemma detect_loop_frame:
  "buffer (snd (detect_loop mags ts d acc ps)) = buffer d \<and>
   buffer_size (snd (detect_loop mags ts d acc ps)) = buffer_size d \<and>
   threshold (snd (detect_loop mags ts d acc ps)) = threshold d \<and>
   min_distance (snd (detect_loop mags ts d acc ps)) = min_distance d \<and>
   height_multiplier (snd (detect_loop mags ts d acc ps)) = height_multiplier d \<and>
   min_peak_interval (snd (detect_loop mags ts d acc ps)) = min_peak_interval d \<and>
   total_samples_processed (snd (detect_loop mags ts d acc ps)) = total_samples_processed d \<and>
   session_start_time (snd (detect_loop mags ts d acc ps)) = session_start_time d"
  by (induction ps arbitrary: d acc) (simp_all add: Let_def)

lemma process_batch_buffer:
  "buffer (snd (process_batch fp d xs)) = deque_extend (buffer_size d) (buffer d) xs"
  by (simp add: process_batch_def Let_def detect_loop_frame deque_extend_def)

lemma process_batch_buffer_size:
  "buffer_size (snd (process_batch fp d xs)) = buffer_size d"
  by (simp add: process_batch_def Let_def detect_loop_frame)


lemma process_batch_total_samples:
  "total_samples_processed (snd (process_batch fp d xs)) = total_samples_processed d + length xs"
  by (simp add: process_batch_def Let_def detect_loop_frame)

lemma process_batches_Cons:
  "snd (process_batches fp d (b # bs)) = snd (process_batches fp (snd (process_batch fp d b)) bs)"
  "fst (process_batches fp d (b # bs)) =
     fst (process_batch fp d b) @ fst (process_batches fp (snd (process_batch fp d b)) bs)"
  by (simp_all add: Let_def split: prod.splits)

lemma process_batches_buffer_size:
  "buffer_size (snd (process_batches fp d bs)) = buffer_size d"
proof (induction bs arbitrary: d)
  case Nil
  show ?case by simp
next
  case (Cons b bs)
  show ?case
    by (simp only: process_batches_Cons Cons.IH process_batch_buffer_size)
qed

lemma process_batches_buffer:
  "buffer (snd (process_batches fp d bs)) = deque_extend (buffer_size d) (buffer d) (concat bs)"
proof (induction bs arbitrary: d)
  case Nil
  show ?case by (simp add: deque_extend_def)
next
  case (Cons b bs)
  show ?case
    by (simp only: process_batches_Cons Cons.IH process_batch_buffer process_batch_buffer_size
          deque_extend_append concat.simps)
qed

lemma process_batches_total_samples:
  "total_samples_processed (snd (process_batches fp d bs)) =
     total_samples_processed d + length (concat bs)"
proof (induction bs arbitrary: d)
  case Nil
  show ?case by simp
next
  case (Cons b bs)
  show ?case
    by (simp only: process_batches_Cons Cons.IH process_batch_total_samples) simp
qed

lemma timestamp_sample_at: "timestamp (sample_at t x) = t"
  by (simp add: sample_at_def)

lemma rotation_magnitude_sample_at: "rotation_magnitude (sample_at t x) = \<bar>x\<bar>"
  by (simp add: sample_at_def rotation_magnitude_def)

lemma acceleration_magnitude_sample_at: "acceleration_magnitude (sample_at t x) = 0"
  by (simp add: sample_at_def acceleration_magnitude_def)

section \<open>The window buffer\<close>

text \<open>
  Claim C3. For every sequence of batches fed to a new detector of capacity \<open>n\<close>, the
  buffer never holds more than \<open>n\<close> samples and holds exactly the last \<open>n\<close> samples
  received, in arrival order; an empty batch returns no events and leaves the whole
  detector unchanged.
\<close>

theorem window_buffer_keeps_most_recent:
  "length (buffer (snd (process_batches fp (SwingDetector_init now n thr md hm) batches))) \<le> n \<and>
   buffer (snd (process_batches fp (SwingDetector_init now n thr md hm) batches)) =
     drop (length (concat batches) - n) (concat batches) \<and>
   process_batch fp d [] = ([], d)"
proof -
  let ?d0 = "SwingDetector_init now n thr md hm"
  have d0: "buffer ?d0 = []" "buffer_size ?d0 = n"
    by (simp_all add: SwingDetector_init_def)
  have b: "buffer (snd (process_batches fp ?d0 batches)) = deque_extend n [] (concat batches)"
    by (simp only: process_batches_buffer d0)
  have "length (deque_extend n [] (concat batches)) \<le> n"
    by (rule length_deque_extend) simp
  moreover have "deque_extend n [] (concat batches) =
      drop (length (concat batches) - n) (concat batches)"
    using deque_extend_drop[of "[]" n "concat batches"] by simp
  moreover have "process_batch fp d [] = ([], d)"
    by (simp add: process_batch_def)
  ultimately show ?thesis by (simp only: b simp_thms)
qed

text \<open>
  Claim C7. When the window, after the batch has been appended, holds fewer than
  \<open>2 * min_distance\<close> samples, \<^verbatim>\<open>process_batch\<close> returns no events (and there is no
  error value to return); the samples are in the buffer and are counted in
  \<open>total_samples_processed\<close>, and nothing else of the detector changes.
\<close>

theorem insufficient_window_defers_detection:
  assumes "length (deque_extend (buffer_size d) (buffer d) samples) < 2 * min_distance d"
  shows "process_batch fp d samples =
           ([], d\<lparr> buffer := deque_extend (buffer_size d) (buffer d) samples,
                    total_samples_processed := total_samples_processed d + length samples \<rparr>)"
proof (cases "samples = []")
  case True
  then show ?thesis by (simp add: process_batch_def deque_extend_def)
next
  case False
  with assms show ?thesis by (simp add: process_batch_def Let_def mult.commute)
qed

text \<open>
  The default detector after a first batch of three samples: the window is short of the
  hundred samples detection needs.
\<close>

theorem insufficient_window_defers_detection_witness:
  "length (deque_extend (buffer_size (SwingDetector_default 0)) (buffer (SwingDetector_default 0))
      [sample_at 1 0, sample_at 2 3, sample_at 3 0]) < 2 * min_distance (SwingDetector_default 0) \<and>
   fst (process_batch find_peaks (SwingDetector_default 0) [sample_at 1 0, sample_at 2 3, sample_at 3 0]) = [] \<and>
   buffer (snd (process_batch find_peaks (SwingDetector_default 0) [sample_at 1 0, sample_at 2 3, sample_at 3 0]))
     = [sample_at 1 0, sample_at 2 3, sample_at 3 0] \<and>
   total_samples_processed (snd (process_batch find_peaks (SwingDetector_default 0)
       [sample_at 1 0, sample_at 2 3, sample_at 3 0])) = 3"
proof -
  have h: "length (deque_extend (buffer_size (SwingDetector_default 0)) (buffer (SwingDetector_default 0))
      [sample_at 1 0, sample_at 2 3, sample_at 3 0]) < 2 * min_distance (SwingDetector_default 0)"
    by (simp add: SwingDetector_default_def SwingDetector_init_def deque_extend_def deque_append_def)
  show ?thesis
    using h insufficient_window_defers_detection[OF h, of find_peaks]
    by (simp add: SwingDetector_default_def SwingDetector_init_def deque_extend_def deque_append_def)
qed

text \<open>
  Claim C2, as amended. However a sample sequence is split into batches, a new detector
  ends with \<open>total_samples_processed\<close> equal to the sum of the batch sizes, which is
  what one batch of all the samples gives, and with the same window contents. (The
  detected events and \<open>total_peaks_detected\<close> do depend on the batching, see below.)
\<close>

theorem batching_preserves_count_and_window:
  "total_samples_processed (snd (process_batches fp (SwingDetector_init now n thr md hm) batches))
     = sum_list (map length batches) \<and>
   total_samples_processed (snd (process_batches fp (SwingDetector_init now n thr md hm) batches))
     = total_samples_processed (snd (process_batch fp (SwingDetector_init now n thr md hm) (concat batches))) \<and>
   buffer (snd (process_batches fp (SwingDetector_init now n thr md hm) batches))
     = buffer (snd (process_batch fp (SwingDetector_init now n thr md hm) (concat batches)))"
  by (simp add: process_batches_total_samples process_batch_total_samples
        process_batches_buffer process_batch_buffer length_concat SwingDetector_init_def)

section \<open>Evaluating the default detector on a stream\<close>

lemma find_peaks_no_candidates: "candidates m h = [] \<Longrightarrow> find_peaks m h k = []"
  by (simp add: find_peaks_def)

lemma candidates_below_threshold: "\<forall>x\<in>set m. x < h \<Longrightarrow> candidates m h = []"
proof -
  assume below: "\<forall>x\<in>set m. x < h"
  have "\<not> is_candidate m h i" for i
  proof
    assume c: "is_candidate m h i"
    then have "i < length m" by (simp add: is_candidate_def)
    then have "m ! i \<in> set m" by simp
    with below have "m ! i < h" by blast
    with c show False by (simp add: is_candidate_def)
  qed
  then show ?thesis by (simp add: candidates_def)
qed

lemma find_peaks_single: "candidates m h = [c] \<Longrightarrow> find_peaks m h k = [c]"
  by (simp add: find_peaks_def)

lemma filter_eq_upt: "filter (\<lambda>i. i = c) [0..<n] = (if c < n then [c] else [])"
  by (induction n) auto

lemma candidates_single:
  assumes "\<And>i. i < length m \<Longrightarrow> is_candidate m h i \<longleftrightarrow> i = c" "c < length m"
  shows "candidates m h = [c]"
proof -
  have "filter (is_candidate m h) [0..<length m] = filter (\<lambda>i. i = c) [0..<length m]"
    by (rule filter_cong) (simp_all add: assms(1))
  with assms(2) show ?thesis by (simp add: candidates_def filter_eq_upt)
qed

lemma magnitudes_stream:
  "map rotation_magnitude (stream_100hz t0 n f) = map (\<lambda>i. \<bar>f i\<bar>) [0..<n]"
  by (simp add: stream_100hz_def rotation_magnitude_sample_at)

lemma timestamps_stream:
  "map timestamp (stream_100hz t0 n f) = map (\<lambda>i. t0 + real i / 100) [0..<n]"
  by (simp add: stream_100hz_def timestamp_sample_at)

lemma candidates_bump:
  assumes "0 < c" "Suc c < n"
  shows "candidates (map (\<lambda>i. \<bar>bump_at c i\<bar>) [0..<n]) 2 = [c]"
  using assms by (intro candidates_single) (auto simp: is_candidate_def bump_at_def)

lemma length_stream: "length (stream_100hz t0 n f) = n"
  by (simp add: stream_100hz_def)

lemma nth_stream: "i < n \<Longrightarrow> stream_100hz t0 n f ! i = sample_at (t0 + real i / 100) (f i)"
  by (simp add: stream_100hz_def)

lemma take_stream: "k \<le> n \<Longrightarrow> take k (stream_100hz t0 n f) = stream_100hz t0 k f"
  by (simp add: stream_100hz_def take_map del: upt_rec_numeral)

lemma find_peaks_bump:
  assumes "0 < c" "Suc c < n"
  shows "find_peaks (map rotation_magnitude (stream_100hz t0 n (bump_at c))) 2 k = [c]"
  by (simp only: magnitudes_stream find_peaks_single[OF candidates_bump[OF assms]])

lemma flat_tail:
  "find_peaks (map rotation_magnitude (drop 100 swing_stream)) 2 50 = []"
proof -
  have "\<forall>x\<in>set (map rotation_magnitude (drop 100 swing_stream)). x < 2"
    by (auto simp: swing_stream_def stream_100hz_def drop_map rotation_magnitude_sample_at
          bump_at_def simp del: upt_rec_numeral)
  then show ?thesis
    by (intro find_peaks_no_candidates candidates_below_threshold)
qed

lemma default_detector_on_bump:
  assumes "0 < c" "Suc c < n" "100 \<le> n" "n \<le> 300"
  shows "process_batch find_peaks (SwingDetector_default now) (stream_100hz t0 n (bump_at c)) =
     (if t0 + real c / 100 < 1 / 2
      then ([], (SwingDetector_default now)\<lparr> buffer := stream_100hz t0 n (bump_at c),
              total_samples_processed := n \<rparr>)
      else ([\<lparr> peak_timestamp = t0 + real c / 100, peak_index = c,
               peak_rotation_magnitude = 3, peak_acceleration_magnitude = 0,
               sensor_data = sample_at (t0 + real c / 100) 3 \<rparr>],
            (SwingDetector_default now)\<lparr> buffer := stream_100hz t0 n (bump_at c),
              total_samples_processed := n, last_peak_timestamp := t0 + real c / 100,
              total_peaks_detected := 1 \<rparr>))"
proof -
  define xs where "xs = stream_100hz t0 n (bump_at c)"
  have len: "length xs = n" by (simp add: xs_def length_stream)
  with assms have ne: "xs \<noteq> []" by auto
  have ext: "deque_extend 300 [] xs = xs"
    using deque_extend_drop[of "[]" 300 xs] assms by (simp add: len)
  have c: "c < n" using assms by simp
  have ts: "map timestamp xs ! c = t0 + real c / 100"
    using c by (simp add: xs_def length_stream nth_stream timestamp_sample_at)
  have mg: "map rotation_magnitude xs ! c = 3"
    using c by (simp add: xs_def length_stream nth_stream rotation_magnitude_sample_at bump_at_def)
  have sm: "xs ! c = sample_at (t0 + real c / 100) 3"
    using c by (simp add: xs_def nth_stream bump_at_def)
  have fp: "find_peaks (map rotation_magnitude xs) 2 50 = [c]"
    unfolding xs_def using assms(1,2) by (rule find_peaks_bump)
  have long: "\<not> n < 100" using assms by simp
  show ?thesis
    unfolding xs_def[symmetric]
    by (simp add: process_batch_def Let_def SwingDetector_default_def SwingDetector_init_def
          ne ext len long fp ts mg sm acceleration_magnitude_sample_at)
qed

lemma first_batch:
  "process_batch find_peaks (SwingDetector_default 0) (take 100 swing_stream) =
     ([\<lparr> peak_timestamp = 3 / 2, peak_index = 50, peak_rotation_magnitude = 3,
         peak_acceleration_magnitude = 0, sensor_data = sample_at (3 / 2) 3 \<rparr>],
      (SwingDetector_default 0)\<lparr> buffer := take 100 swing_stream,
         total_samples_processed := 100, last_peak_timestamp := 3 / 2,
         total_peaks_detected := 1 \<rparr>)"
proof -
  have tk: "take 100 swing_stream = stream_100hz 1 100 (bump_at 50)"
    by (simp add: swing_stream_def take_stream)
  show ?thesis
    unfolding tk by (simp add: default_detector_on_bump)
qed

lemma length_swing_stream: "length swing_stream = 400"
  by (simp add: swing_stream_def length_stream)

lemma window_after_stream:
  "deque_extend 300 [] swing_stream = drop 100 swing_stream"
  "deque_extend 300 (take 100 swing_stream) (drop 100 swing_stream) = drop 100 swing_stream"
  using deque_extend_drop[of "[]" 300 swing_stream]
    deque_extend_drop[of "take 100 swing_stream" 300 "drop 100 swing_stream"]
  by (simp_all add: length_swing_stream)

lemma one_batch:
  "process_batch find_peaks (SwingDetector_default 0) swing_stream =
     ([], (SwingDetector_default 0)\<lparr> buffer := drop 100 swing_stream,
             total_samples_processed := 400 \<rparr>)"
proof -
  have ne: "swing_stream \<noteq> []"
    using length_swing_stream by auto
  show ?thesis
    by (simp add: process_batch_def Let_def SwingDetector_default_def SwingDetector_init_def
          ne window_after_stream length_swing_stream flat_tail)
qed

lemma second_batch:
  "process_batch find_peaks
     ((SwingDetector_default 0)\<lparr> buffer := take 100 swing_stream,
         total_samples_processed := 100, last_peak_timestamp := 3 / 2,
         total_peaks_detected := 1 \<rparr>) (drop 100 swing_stream) =
     ([], (SwingDetector_default 0)\<lparr> buffer := drop 100 swing_stream,
         total_samples_processed := 400, last_peak_timestamp := 3 / 2,
         total_peaks_detected := 1 \<rparr>)"
proof -
  have ne: "drop 100 swing_stream \<noteq> []"
    using length_swing_stream by auto
  show ?thesis
    by (simp add: process_batch_def Let_def SwingDetector_default_def SwingDetector_init_def
          ne window_after_stream length_swing_stream flat_tail)
qed

text \<open>
  Claim C2, counterexample. The default detector on the 400 samples of \<open>swing_stream\<close>:
  fed as a batch of 100 and a batch of 300 it reports the swing at timestamp 1.5 and
  counts one peak; fed as one batch of 400 it reports nothing and counts none, since
  the window then holds only the last 300 samples when the peak finder first runs.
\<close>

theorem batching_changes_detected_events:
  "fst (process_batches find_peaks (SwingDetector_default 0)
      [take 100 swing_stream, drop 100 swing_stream]) \<noteq>
   fst (process_batch find_peaks (SwingDetector_default 0)
      (concat [take 100 swing_stream, drop 100 swing_stream])) \<and>
   map peak_timestamp (fst (process_batches find_peaks (SwingDetector_default 0)
      [take 100 swing_stream, drop 100 swing_stream])) = [3 / 2] \<and>
   total_peaks_detected (snd (process_batches find_peaks (SwingDetector_default 0)
      [take 100 swing_stream, drop 100 swing_stream])) = 1 \<and>
   fst (process_batch find_peaks (SwingDetector_default 0)
      (concat [take 100 swing_stream, drop 100 swing_stream])) = [] \<and>
   total_peaks_detected (snd (process_batch find_peaks (SwingDetector_default 0)
      (concat [take 100 swing_stream, drop 100 swing_stream]))) = 0"
proof -
  have split: "process_batches find_peaks (SwingDetector_default 0)
      [take 100 swing_stream, drop 100 swing_stream] =
     ([\<lparr> peak_timestamp = 3 / 2, peak_index = 50, peak_rotation_magnitude = 3,
         peak_acceleration_magnitude = 0, sensor_data = sample_at (3 / 2) 3 \<rparr>],
      (SwingDetector_default 0)\<lparr> buffer := drop 100 swing_stream,
         total_samples_processed := 400, last_peak_timestamp := 3 / 2,
         total_peaks_detected := 1 \<rparr>)"
    by (simp only: process_batches.simps first_batch second_batch Let_def prod.case append_Nil2)
  have whole: "concat [take 100 swing_stream, drop 100 swing_stream] = swing_stream"
    by simp
  show ?thesis
    by (simp only: split whole one_batch)
       (simp add: SwingDetector_default_def SwingDetector_init_def)
qed

section \<open>The debounce loop\<close>





















section \<open>The raw sample store\<close>

lemma insert_raw_stored:
  assumes "samples \<noteq> []"
  shows "filter (same_range sid (min_timestamp samples) (max_timestamp samples))
           (insert_raw_sensor_buffer True new_id sid samples tbl) \<noteq> []"
  using assms by (simp add: insert_raw_sensor_buffer_def Let_def same_range_def)

lemma insert_raw_skip:
  assumes "filter (same_range sid (min_timestamp samples) (max_timestamp samples)) tbl \<noteq> []"
  shows "insert_raw_sensor_buffer db_ok new_id sid samples tbl = tbl"
  using assms by (simp add: insert_raw_sensor_buffer_def Let_def)

text \<open>
  Claim C9. Two calls of \<^verbatim>\<open>insert_raw_sensor_buffer\<close> for the same session with non-empty
  batches of the same minimum and maximum timestamp, the first of which reaches the
  database: the second call changes nothing, whatever its samples and identifier, and
  the table then holds one row for that session and range (or the rows it held for it
  before the two calls, when it held any).
\<close>

theorem store_raw_batch_idempotent:
  assumes "samples \<noteq> []" "samples' \<noteq> []"
    and "min_timestamp samples' = min_timestamp samples"
    and "max_timestamp samples' = max_timestamp samples"
  shows "insert_raw_sensor_buffer db_ok' new_id' sid samples'
           (insert_raw_sensor_buffer True new_id sid samples tbl)
         = insert_raw_sensor_buffer True new_id sid samples tbl \<and>
         length (filter (same_range sid (min_timestamp samples) (max_timestamp samples))
           (insert_raw_sensor_buffer db_ok' new_id' sid samples'
              (insert_raw_sensor_buffer True new_id sid samples tbl)))
         = (if filter (same_range sid (min_timestamp samples) (max_timestamp samples)) tbl = []
            then 1
            else length (filter (same_range sid (min_timestamp samples) (max_timestamp samples)) tbl))"
proof -
  let ?t1 = "insert_raw_sensor_buffer True new_id sid samples tbl"
  have "filter (same_range sid (min_timestamp samples') (max_timestamp samples')) ?t1 \<noteq> []"
    unfolding assms(3,4) using assms(1) by (rule insert_raw_stored)
  then have skip: "insert_raw_sensor_buffer db_ok' new_id' sid samples' ?t1 = ?t1"
    by (rule insert_raw_skip)
  have "length (filter (same_range sid (min_timestamp samples) (max_timestamp samples)) ?t1)
         = (if filter (same_range sid (min_timestamp samples) (max_timestamp samples)) tbl = []
            then 1
            else length (filter (same_range sid (min_timestamp samples) (max_timestamp samples)) tbl))"
    using assms(1) by (simp add: insert_raw_sensor_buffer_def Let_def same_range_def)
  with skip show ?thesis by simp
qed

text \<open>
  Two batches of session \<open>s1\<close> with timestamps from 1 to 3, different samples: the
  table ends with the row of the first batch alone.
\<close>

theorem store_raw_batch_idempotent_witness:
  "[sample_at 1 0, sample_at 3 0] \<noteq> [] \<and> [sample_at 3 1, sample_at 2 2, sample_at 1 3] \<noteq> [] \<and>
   min_timestamp [sample_at 3 1, sample_at 2 2, sample_at 1 3] = min_timestamp [sample_at 1 0, sample_at 3 0] \<and>
   max_timestamp [sample_at 3 1, sample_at 2 2, sample_at 1 3] = max_timestamp [sample_at 1 0, sample_at 3 0] \<and>
   insert_raw_sensor_buffer True ''buffer_b'' ''s1'' [sample_at 3 1, sample_at 2 2, sample_at 1 3]
     (insert_raw_sensor_buffer True ''buffer_a'' ''s1'' [sample_at 1 0, sample_at 3 0] [])
   = [\<lparr> buffer_id = ''buffer_a'', row_session_id = ''s1'', start_timestamp = 1, end_timestamp = 3,
        sample_count = 2, compressed_data = [sample_at 1 0, sample_at 3 0] \<rparr>]"
proof -
  have h: "[sample_at 1 0, sample_at 3 0] \<noteq> []" "[sample_at 3 1, sample_at 2 2, sample_at 1 3] \<noteq> []"
    "min_timestamp [sample_at 3 1, sample_at 2 2, sample_at 1 3] = min_timestamp [sample_at 1 0, sample_at 3 0]"
    "max_timestamp [sample_at 3 1, sample_at 2 2, sample_at 1 3] = max_timestamp [sample_at 1 0, sample_at 3 0]"
    by (simp_all add: min_timestamp_def max_timestamp_def timestamp_sample_at)
  have first: "insert_raw_sensor_buffer True ''buffer_a'' ''s1'' [sample_at 1 0, sample_at 3 0] []
     = [\<lparr> buffer_id = ''buffer_a'', row_session_id = ''s1'', start_timestamp = 1, end_timestamp = 3,
        sample_count = 2, compressed_data = [sample_at 1 0, sample_at 3 0] \<rparr>]"
    by (simp add: insert_raw_sensor_buffer_def Let_def min_timestamp_def max_timestamp_def
          timestamp_sample_at)
  show ?thesis
    using h store_raw_batch_idempotent[OF h, of True "''buffer_b''" "''s1''" "''buffer_a''" "[]"]
    by (simp only: first) simp
qed

section \<open>The session registry\<close>

lemma three_samples_short:
  "process_batch fp (SwingDetector_init now 300 2 50 1) three_samples =
     ([], (SwingDetector_init now 300 2 50 1)\<lparr> buffer := three_samples,
            total_samples_processed := 3 \<rparr>)"
  by (simp add: process_batch_def three_samples_def SwingDetector_init_def Let_def
        deque_extend_def deque_append_def)

lemma started_session:
  "handle_message fp enable (env_at t) st (SessionStart (Some ''s1'') dev) =
     ([SessionStarted ''s1''],
      st\<lparr> active_sessions := (active_sessions st)(''s1'' \<mapsto> SwingDetector_init t 300 2 50 1),
          current_session_id := Some ''s1'' \<rparr>)"
  by (simp add: env_at_def)

text \<open>
  Claim C5, as amended. A \<^verbatim>\<open>session_start\<close> with a non-empty id always stores a newly
  constructed detector under that id, whether or not the id was active: the new
  detector has an empty buffer, \<open>last_peak_timestamp = 0\<close>, zero counters and the
  current time as its start time; the other sessions and the stored raw data are
  unchanged, and \<^verbatim>\<open>session_started\<close> is sent.
\<close>

theorem session_start_replaces_controller:
  assumes "sid \<noteq> []"
  shows "fst (handle_message fp enable e st (SessionStart (Some sid) device)) = [SessionStarted sid] \<and>
         active_sessions (snd (handle_message fp enable e st (SessionStart (Some sid) device)))
           = (active_sessions st)(sid \<mapsto> SwingDetector_init (env_now e) 300 2 50 1) \<and>
         raw_sensor_buffer (snd (handle_message fp enable e st (SessionStart (Some sid) device)))
           = raw_sensor_buffer st \<and>
         buffer (SwingDetector_init (env_now e) 300 2 50 1) = [] \<and>
         last_peak_timestamp (SwingDetector_init (env_now e) 300 2 50 1) = 0 \<and>
         total_samples_processed (SwingDetector_init (env_now e) 300 2 50 1) = 0 \<and>
         total_peaks_detected (SwingDetector_init (env_now e) 300 2 50 1) = 0 \<and>
         session_start_time (SwingDetector_init (env_now e) 300 2 50 1) = env_now e"
  using assms by (simp add: SwingDetector_init_def)

text \<open>A second start of \<open>s1\<close>, at time 20, leaves the detector constructed at time 20.\<close>

theorem session_start_replaces_controller_witness:
  "''s1'' \<noteq> [] \<and>
   active_sessions (snd (handle_message find_peaks True (env_at 20)
       (snd (handle_message find_peaks True (env_at 10) server_init
          (SessionStart (Some ''s1'') ''AppleWatch'')))
       (SessionStart (Some ''s1'') ''AppleWatch''))) ''s1''
     = Some (SwingDetector_init 20 300 2 50 1)"
proof -
  have h: "''s1'' \<noteq> []" by simp
  show ?thesis
    using h session_start_replaces_controller[OF h, of find_peaks True "env_at 20"
        "snd (handle_message find_peaks True (env_at 10) server_init
          (SessionStart (Some ''s1'') ''AppleWatch''))" "''AppleWatch''"]
    by (simp add: env_at_def)
qed

text \<open>
  Claim C5, counterexample. Session \<open>s1\<close> is started at time 10 and started again at
  time 20: as shipped, its detector's start time moves from 10 to 20; with real-time
  detection enabled and a batch of three samples in between, its count of processed
  samples falls from 3 to 0.
\<close>

theorem second_start_resets_session:
  "map_option session_start_time
     (active_sessions (snd (handle_message find_peaks ENABLE_REALTIME_SWING_DETECTION (env_at 10)
        server_init (SessionStart (Some ''s1'') ''AppleWatch''))) ''s1'') = Some 10 \<and>
   map_option session_start_time
     (active_sessions (snd (handle_message find_peaks ENABLE_REALTIME_SWING_DETECTION (env_at 20)
        (snd (handle_message find_peaks ENABLE_REALTIME_SWING_DETECTION (env_at 10)
           server_init (SessionStart (Some ''s1'') ''AppleWatch'')))
        (SessionStart (Some ''s1'') ''AppleWatch''))) ''s1'') = Some 20 \<and>
   map_option total_samples_processed
     (active_sessions (snd (handle_message find_peaks True (env_at 11)
        (snd (handle_message find_peaks True (env_at 10)
           server_init (SessionStart (Some ''s1'') ''AppleWatch'')))
        (SensorBatch ''s1'' ''AppleWatch'' three_samples))) ''s1'') = Some 3 \<and>
   map_option total_samples_processed
     (active_sessions (snd (handle_message find_peaks True (env_at 20)
        (snd (handle_message find_peaks True (env_at 11)
           (snd (handle_message find_peaks True (env_at 10)
              server_init (SessionStart (Some ''s1'') ''AppleWatch'')))
           (SensorBatch ''s1'' ''AppleWatch'' three_samples)))
        (SessionStart (Some ''s1'') ''AppleWatch''))) ''s1'') = Some 0"
  by (simp add: started_session three_samples_short)
     (simp add: SwingDetector_init_def env_at_def)

text \<open>
  Claim C6, as amended. A \<^verbatim>\<open>session_end\<close> whose id is not active (unknown, missing, or
  ended before) sends nothing to the caller and leaves the whole state unchanged; in
  particular a second \<^verbatim>\<open>session_end\<close> of the same id does so.
\<close>

theorem session_end_unknown_is_silent:
  assumes "active_sessions st sid = None"
  shows "handle_message fp enable e st (SessionEnd (Some sid)) = ([], st) \<and>
         handle_message fp enable e st (SessionEnd None) = ([], st) \<and>
         handle_message fp enable e'
             (snd (handle_message fp enable e st' (SessionEnd (Some sid')))) (SessionEnd (Some sid'))
           = ([], snd (handle_message fp enable e st' (SessionEnd (Some sid'))))"
  using assms by (simp split: option.splits)

text \<open>With \<open>s1\<close> active, ending the unknown \<open>s2\<close> sends nothing and keeps \<open>s1\<close>.\<close>

theorem session_end_unknown_is_silent_witness:
  "active_sessions
     (snd (handle_message find_peaks True (env_at 10) server_init
        (SessionStart (Some ''s1'') ''AppleWatch''))) ''s2'' = None \<and>
   handle_message find_peaks True (env_at 20)
     (snd (handle_message find_peaks True (env_at 10) server_init
        (SessionStart (Some ''s1'') ''AppleWatch''))) (SessionEnd (Some ''s2''))
   = ([], \<lparr> active_sessions = [''s1'' \<mapsto> SwingDetector_init 10 300 2 50 1],
            raw_sensor_buffer = [], current_session_id = Some ''s1'' \<rparr>)"
proof -
  have h: "active_sessions
     (snd (handle_message find_peaks True (env_at 10) server_init
        (SessionStart (Some ''s1'') ''AppleWatch''))) ''s2'' = None"
    by (simp add: server_init_def)
  show ?thesis
    using h session_end_unknown_is_silent[OF h, of find_peaks True "env_at 20"]
    by (simp add: server_init_def env_at_def)
qed

text \<open>
  Claim C6, counterexample. On the initial server a \<^verbatim>\<open>session_end\<close> for \<open>s1\<close> produces
  no response at all, where a message of unknown type is answered with an error.
\<close>

theorem session_end_unknown_sends_nothing:
  "fst (handle_message find_peaks ENABLE_REALTIME_SWING_DETECTION (env_at 10) server_init
          (SessionEnd (Some ''s1''))) = [] \<and>
   snd (handle_message find_peaks ENABLE_REALTIME_SWING_DETECTION (env_at 10) server_init
          (SessionEnd (Some ''s1''))) = server_init \<and>
   fst (handle_message find_peaks ENABLE_REALTIME_SWING_DETECTION (env_at 10) server_init
          (UnknownType ''ping'')) = [Error ''Unknown message type: ping'']"
  by (simp add: server_init_def)

text \<open>
  Claim C8, as amended. A sensor batch handled with real-time detection disabled sends
  no response; its samples go to \<^verbatim>\<open>insert_raw_sensor_buffer\<close> exactly as with detection
  enabled; \<^verbatim>\<open>process_batch\<close> is not called, so the session's detector (the one found,
  or the default one created for an unknown id) keeps its window, its
  \<open>last_peak_timestamp\<close> and its count of peaks; the other sessions are unchanged.
\<close>

theorem detection_disabled_stores_raw_only:
  "fst (handle_message fp ENABLE_REALTIME_SWING_DETECTION e st (SensorBatch sid device samples)) = [] \<and>
   raw_sensor_buffer
     (snd (handle_message fp ENABLE_REALTIME_SWING_DETECTION e st (SensorBatch sid device samples)))
     = insert_raw_sensor_buffer (env_db_ok e) (env_buffer_id e) sid samples (raw_sensor_buffer st) \<and>
   raw_sensor_buffer (snd (handle_message fp True e st (SensorBatch sid device samples)))
     = insert_raw_sensor_buffer (env_db_ok e) (env_buffer_id e) sid samples (raw_sensor_buffer st) \<and>
   map_option buffer
     (active_sessions
        (snd (handle_message fp ENABLE_REALTIME_SWING_DETECTION e st (SensorBatch sid device samples))) sid)
     = Some (case active_sessions st sid of None \<Rightarrow> [] | Some d \<Rightarrow> buffer d) \<and>
   map_option last_peak_timestamp
     (active_sessions
        (snd (handle_message fp ENABLE_REALTIME_SWING_DETECTION e st (SensorBatch sid device samples))) sid)
     = Some (case active_sessions st sid of None \<Rightarrow> 0 | Some d \<Rightarrow> last_peak_timestamp d) \<and>
   map_option total_peaks_detected
     (active_sessions
        (snd (handle_message fp ENABLE_REALTIME_SWING_DETECTION e st (SensorBatch sid device samples))) sid)
     = Some (case active_sessions st sid of None \<Rightarrow> 0 | Some d \<Rightarrow> total_peaks_detected d) \<and>
   active_sessions
     (snd (handle_message fp ENABLE_REALTIME_SWING_DETECTION e st (SensorBatch sid device samples)))
       |` (- {sid})
     = active_sessions st |` (- {sid})"
proof (cases "active_sessions st sid")
  case None
  then show ?thesis
    by (simp add: ENABLE_REALTIME_SWING_DETECTION_def Let_def SwingDetector_default_def
          SwingDetector_init_def split: prod.splits)
next
  case (Some d)
  then show ?thesis
    by (simp add: ENABLE_REALTIME_SWING_DETECTION_def Let_def split: prod.splits)
qed

text \<open>
  Claim C8, counterexample. One batch of 100 samples with a swing, for a new session:
  with detection disabled the detector counts no sample and no peak, with detection
  enabled it counts 100 samples and one peak.
\<close>

theorem detection_disabled_tracks_no_statistics:
  "fst (handle_message find_peaks ENABLE_REALTIME_SWING_DETECTION (env_at 10) server_init
          (SensorBatch ''s1'' ''AppleWatch'' (stream_100hz 1 100 (bump_at 50)))) = [] \<and>
   map_option total_samples_processed
     (active_sessions (snd (handle_message find_peaks ENABLE_REALTIME_SWING_DETECTION (env_at 10)
        server_init (SensorBatch ''s1'' ''AppleWatch'' (stream_100hz 1 100 (bump_at 50))))) ''s1'')
     = Some 0 \<and>
   map_option total_peaks_detected
     (active_sessions (snd (handle_message find_peaks ENABLE_REALTIME_SWING_DETECTION (env_at 10)
        server_init (SensorBatch ''s1'' ''AppleWatch'' (stream_100hz 1 100 (bump_at 50))))) ''s1'')
     = Some 0 \<and>
   map_option total_samples_processed
     (active_sessions (snd (handle_message find_peaks True (env_at 10)
        server_init (SensorBatch ''s1'' ''AppleWatch'' (stream_100hz 1 100 (bump_at 50))))) ''s1'')
     = Some 100 \<and>
   map_option total_peaks_detected
     (active_sessions (snd (handle_message find_peaks True (env_at 10)
        server_init (SensorBatch ''s1'' ''AppleWatch'' (stream_100hz 1 100 (bump_at 50))))) ''s1'')
     = Some 1"
proof -
  have run: "process_batch find_peaks (SwingDetector_default 10) (stream_100hz 1 100 (bump_at 50)) =
     ([\<lparr> peak_timestamp = 3 / 2, peak_index = 50, peak_rotation_magnitude = 3,
         peak_acceleration_magnitude = 0, sensor_data = sample_at (3 / 2) 3 \<rparr>],
      (SwingDetector_default 10)\<lparr> buffer := stream_100hz 1 100 (bump_at 50),
         total_samples_processed := 100, last_peak_timestamp := 3 / 2,
         total_peaks_detected := 1 \<rparr>)"
    by (simp add: default_detector_on_bump)
  have off: "handle_message find_peaks False (env_at 10) server_init
        (SensorBatch ''s1'' ''AppleWatch'' (stream_100hz 1 100 (bump_at 50))) =
      ([], \<lparr> active_sessions = [''s1'' \<mapsto> SwingDetector_default 10],
          raw_sensor_buffer = insert_raw_sensor_buffer True ''buffer_0'' ''s1''
             (stream_100hz 1 100 (bump_at 50)) [],
          current_session_id = Some ''s1'' \<rparr>)"
    by (simp add: server_init_def env_at_def Let_def)
  have on: "active_sessions (snd (handle_message find_peaks True (env_at 10) server_init
        (SensorBatch ''s1'' ''AppleWatch'' (stream_100hz 1 100 (bump_at 50))))) ''s1'' =
      Some ((SwingDetector_default 10)\<lparr> buffer := stream_100hz 1 100 (bump_at 50),
         total_samples_processed := 100, last_peak_timestamp := 3 / 2,
         total_peaks_detected := 1 \<rparr>)"
    by (simp add: server_init_def env_at_def Let_def run)
  show ?thesis
    unfolding ENABLE_REALTIME_SWING_DETECTION_def
    by (simp only: off on) (simp add: SwingDetector_default_def SwingDetector_init_def)
qed

end
